theory Spec2Isabelle
  imports Main "HOL-Library.Sublist"
begin

section \<open>Python values and syntax trees\<close>

text \<open>
  The transformation engine of \<^verbatim>\<open>refactor.py\<close> works on the trees of Python's
  \<^verbatim>\<open>ast\<close> module. Such a tree is dynamically typed: a node has a class name and named
  fields, and a field holds a node, a list, a string, a number or \<^verbatim>\<open>None\<close>. The visitor
  of \<^verbatim>\<open>RSA2PQCTransformer\<close> returns a list where a node stood, so a field that held one
  node may hold a list afterwards; the model keeps the trees as untyped as Python does.
  Fields are listed in the order of the class's \<^verbatim>\<open>_fields\<close>; source positions
  (\<^verbatim>\<open>lineno\<close>, \<^verbatim>\<open>col_offset\<close>) are attributes, not fields, and are left out.
\<close>

datatype pyval =
    Node string "(string \<times> pyval) list"
  | PList "pyval list"
  | PStr string
  | PInt int
  | PNone


fun isinstance :: "pyval \<Rightarrow> string \<Rightarrow> bool" where
  "isinstance (Node c fs) c' = (c = c')"
| "isinstance v c' = False"

text \<open>
  Attribute access \<^verbatim>\<open>node.k\<close>. Every node that \<^verbatim>\<open>ast.parse\<close> builds carries all the
  fields of its class, so the default is not taken on parsed trees.
\<close>

fun attr :: "pyval \<Rightarrow> string \<Rightarrow> pyval" where
  "attr (Node c fs) k = (case map_of fs k of Some v \<Rightarrow> v | None \<Rightarrow> PNone)"
| "attr v k = PNone"

subsection \<open>The interpreter and its libraries\<close>

text \<open>
  What the code of the repository calls in the interpreter and its libraries is a
  parameter of the model:
  \<^item> \<^verbatim>\<open>ast.parse\<close>, which raises, with a message, or returns a \<^verbatim>\<open>Module\<close> whose body is
    the list of statements given here;
  \<^item> \<^verbatim>\<open>astunparse.unparse\<close>, which raises or returns a text;
  \<^item> the exception, if any, with which the recursion of a pass over a tree ends: the
    visitors of \<^verbatim>\<open>ast.NodeTransformer\<close> and \<^verbatim>\<open>ast.fix_missing_locations\<close> are
    recursive, and the interpreter raises \<^verbatim>\<open>RecursionError\<close> when a tree is nested too
    deeply for its stack;
  \<^item> \<^verbatim>\<open>str.lower\<close> and \<^verbatim>\<open>str.strip\<close>, which follow the Unicode tables.

  A Python string is modelled by the bytes of its UTF-8 encoding. The tests
  \<^verbatim>\<open>==\<close>, \<^verbatim>\<open>startswith\<close> and \<^verbatim>\<open>in\<close> on strings agree with equality, prefix and infix
  on the encodings.
\<close>

datatype stage = RemoveImports | RewriteCalls | AddImport | FixLocations

record interp =
  parse :: "string \<Rightarrow> string + pyval list"
  unparse :: "pyval \<Rightarrow> string + string"
  stage_error :: "stage \<Rightarrow> pyval \<Rightarrow> string option"
  lower :: "string \<Rightarrow> string"
  strip :: "string \<Rightarrow> string"

subsection \<open>Constructors for the nodes the engine reads and builds\<close>

definition Load :: pyval where
  "Load = Node ''Load'' []"

definition Name :: "string \<Rightarrow> pyval" where
  "Name i = Node ''Name'' [(''id'', PStr i), (''ctx'', Load)]"

definition Attribute :: "pyval \<Rightarrow> string \<Rightarrow> pyval" where
  "Attribute v a = Node ''Attribute'' [(''value'', v), (''attr'', PStr a), (''ctx'', Load)]"

definition Call :: "pyval \<Rightarrow> pyval \<Rightarrow> pyval \<Rightarrow> pyval" where
  "Call f args keywords = Node ''Call'' [(''func'', f), (''args'', args), (''keywords'', keywords)]"

definition Constant :: "pyval \<Rightarrow> pyval" where
  "Constant v = Node ''Constant'' [(''value'', v)]"

definition Expr :: "pyval \<Rightarrow> pyval" where
  "Expr v = Node ''Expr'' [(''value'', v)]"

definition alias_node :: "string \<Rightarrow> pyval \<Rightarrow> pyval" where
  "alias_node n a = Node ''alias'' [(''name'', PStr n), (''asname'', a)]"

definition Import :: "pyval list \<Rightarrow> pyval" where
  "Import names = Node ''Import'' [(''names'', PList names)]"

definition ImportFrom :: "string \<Rightarrow> pyval list \<Rightarrow> int \<Rightarrow> pyval" where
  "ImportFrom m names level =
     Node ''ImportFrom'' [(''module'', PStr m), (''names'', PList names), (''level'', PInt level)]"

definition Module :: "pyval list \<Rightarrow> pyval" where
  "Module body = Node ''Module'' [(''body'', PList body), (''type_ignores'', PList [])]"

section \<open>The three passes of \<^verbatim>\<open>refactor.py\<close>\<close>

text \<open>
  Each pass is an \<^verbatim>\<open>ast.NodeTransformer\<close>. \<^verbatim>\<open>visit\<close> calls the method
  \<^verbatim>\<open>visit_<Class>\<close> when the transformer has one and \<^verbatim>\<open>generic_visit\<close> otherwise.
  \<^verbatim>\<open>generic_visit\<close> goes through the fields of the node in order: in a list it visits
  every item that is a node, drops the item when the visit returns \<^verbatim>\<open>None\<close>, splices the
  result in when it is a list, and keeps other items; a field holding one node is
  deleted when the visit returns \<^verbatim>\<open>None\<close> and set to the result otherwise.
\<close>

subsection \<open>Pass 1: \<^verbatim>\<open>RemoveRSAImportTransformer\<close>\<close>

definition names_of :: "pyval \<Rightarrow> pyval list" where
  "names_of node = (case attr node ''names'' of PList xs \<Rightarrow> xs | _ \<Rightarrow> [])"

definition rm_visit_Import :: "pyval \<Rightarrow> pyval" where
  "rm_visit_Import node =
     (let new_names = filter (\<lambda>n. attr n ''name'' \<noteq> PStr ''rsa'') (names_of node)
      in if new_names \<noteq> [] then node else PNone)"

definition rm_visit_ImportFrom :: "pyval \<Rightarrow> pyval" where
  "rm_visit_ImportFrom node = (if attr node ''module'' = PStr ''rsa'' then PNone else node)"

fun rm_visit :: "pyval \<Rightarrow> pyval"
  and rm_items :: "pyval list \<Rightarrow> pyval list"
  and rm_fields :: "(string \<times> pyval) list \<Rightarrow> (string \<times> pyval) list"
where
  "rm_visit (Node c fs) =
     (if c = ''Import'' then rm_visit_Import (Node c fs)
      else if c = ''ImportFrom'' then rm_visit_ImportFrom (Node c fs)
      else Node c (rm_fields fs))"
| "rm_visit v = v"
| "rm_items [] = []"
| "rm_items (Node c fs # xs) =
     (case rm_visit (Node c fs) of
        PNone \<Rightarrow> rm_items xs
      | PList ys \<Rightarrow> ys @ rm_items xs
      | r \<Rightarrow> r # rm_items xs)"
| "rm_items (x # xs) = x # rm_items xs"
| "rm_fields [] = []"
| "rm_fields ((k, PList xs) # fs) = (k, PList (rm_items xs)) # rm_fields fs"
| "rm_fields ((k, Node c' fs') # fs) =
     (case rm_visit (Node c' fs') of
        PNone \<Rightarrow> rm_fields fs
      | r \<Rightarrow> (k, r) # rm_fields fs)"
| "rm_fields ((k, v) # fs) = (k, v) # rm_fields fs"

subsection \<open>Pass 2: \<^verbatim>\<open>RSA2PQCTransformer\<close>\<close>

definition RSA_TO_PQC_MAPPING :: "string \<rightharpoonup> string" where
  "RSA_TO_PQC_MAPPING = map_of
     [(''newkeys'', ''oqs_generate_keypair''),
      (''encrypt'', ''oqs_encrypt''),
      (''decrypt'', ''oqs_decrypt''),
      (''sign'', ''oqs_sign''),
      (''verify'', ''oqs_verify'')]"

definition migration_comment :: "string \<Rightarrow> string \<Rightarrow> pyval" where
  "migration_comment func_name new_func_name =
     Expr (Constant (PStr (''[Info]: Migrated rsa.'' @ func_name @ ''() to '' @ new_func_name @ ''()'')))"

text \<open>
  The rewriting branch of \<^verbatim>\<open>visit_Call\<close>: \<open>Some\<close> of the list it returns, or \<open>None\<close>
  when the method falls through to \<^verbatim>\<open>generic_visit\<close>. The new call takes
  \<^verbatim>\<open>node.args\<close> and \<^verbatim>\<open>node.keywords\<close> as they are: they are not visited.
\<close>

definition rewrite_Call :: "interp \<Rightarrow> pyval \<Rightarrow> pyval option" where
  "rewrite_Call I node =
     (let func = attr node ''func'' in
      if isinstance func ''Attribute'' \<and> isinstance (attr func ''value'') ''Name'' then
        (case attr (attr func ''value'') ''id'' of
           PStr i \<Rightarrow>
             if lower I i = ''rsa'' then
               (case attr func ''attr'' of
                  PStr func_name \<Rightarrow>
                    (case RSA_TO_PQC_MAPPING func_name of
                       Some new_func_name \<Rightarrow>
                         Some (PList [Call (Name new_func_name) (attr node ''args'') (attr node ''keywords''),
                                      migration_comment func_name new_func_name])
                     | None \<Rightarrow> None)
                | _ \<Rightarrow> None)
             else None
         | _ \<Rightarrow> None)
      else None)"

fun call_visit :: "interp \<Rightarrow> pyval \<Rightarrow> pyval"
  and call_items :: "interp \<Rightarrow> pyval list \<Rightarrow> pyval list"
  and call_fields :: "interp \<Rightarrow> (string \<times> pyval) list \<Rightarrow> (string \<times> pyval) list"
where
  "call_visit I (Node c fs) =
     (if c = ''Call'' then
        (case rewrite_Call I (Node c fs) of
           Some r \<Rightarrow> r
         | None \<Rightarrow> Node c (call_fields I fs))
      else Node c (call_fields I fs))"
| "call_visit I v = v"
| "call_items I [] = []"
| "call_items I (Node c fs # xs) =
     (case call_visit I (Node c fs) of
        PNone \<Rightarrow> call_items I xs
      | PList ys \<Rightarrow> ys @ call_items I xs
      | r \<Rightarrow> r # call_items I xs)"
| "call_items I (x # xs) = x # call_items I xs"
| "call_fields I [] = []"
| "call_fields I ((k, PList xs) # fs) = (k, PList (call_items I xs)) # call_fields I fs"
| "call_fields I ((k, Node c' fs') # fs) =
     (case call_visit I (Node c' fs') of
        PNone \<Rightarrow> call_fields I fs
      | r \<Rightarrow> (k, r) # call_fields I fs)"
| "call_fields I ((k, v) # fs) = (k, v) # call_fields I fs"

subsection \<open>Pass 3: \<^verbatim>\<open>AddPQCImportTransformer\<close>\<close>

text \<open>
  The transformer carries the flag \<^verbatim>\<open>self.found\<close>, here passed through the traversal.
  \<^verbatim>\<open>visit_Module\<close> visits the children first and then inserts the import at the head of
  \<^verbatim>\<open>node.body\<close> when the flag is still unset.
\<close>

definition pqc_import :: pyval where
  "pqc_import = ImportFrom ''pqc_helpers''
     [alias_node ''oqs_generate_keypair'' PNone,
      alias_node ''oqs_encrypt'' PNone,
      alias_node ''oqs_decrypt'' PNone,
      alias_node ''oqs_sign'' PNone,
      alias_node ''oqs_verify'' PNone] 0"

fun body_insert :: "pyval \<Rightarrow> (string \<times> pyval) list \<Rightarrow> (string \<times> pyval) list" where
  "body_insert x [] = []"
| "body_insert x ((k, v) # fs) =
     (if k = ''body'' then (case v of PList xs \<Rightarrow> (k, PList (x # xs)) # fs | _ \<Rightarrow> (k, v) # fs)
      else (k, v) # body_insert x fs)"

fun add_visit :: "pyval \<Rightarrow> bool \<Rightarrow> pyval \<times> bool"
  and add_items :: "pyval list \<Rightarrow> bool \<Rightarrow> pyval list \<times> bool"
  and add_fields :: "(string \<times> pyval) list \<Rightarrow> bool \<Rightarrow> (string \<times> pyval) list \<times> bool"
where
  "add_visit (Node c fs) found =
     (if c = ''ImportFrom'' then
        (Node c fs, if attr (Node c fs) ''module'' = PStr ''pqc_helpers'' then True else found)
      else
        (case add_fields fs found of
           (fs', found') \<Rightarrow>
             if c = ''Module'' \<and> \<not> found' then (Node c (body_insert pqc_import fs'), found')
             else (Node c fs', found')))"
| "add_visit v found = (v, found)"
| "add_items [] found = ([], found)"
| "add_items (Node c fs # xs) found =
     (case add_visit (Node c fs) found of
        (r, found') \<Rightarrow>
          (case add_items xs found' of
             (rs, found'') \<Rightarrow>
               (case r of PNone \<Rightarrow> (rs, found'') | PList ys \<Rightarrow> (ys @ rs, found'') | _ \<Rightarrow> (r # rs, found''))))"
| "add_items (x # xs) found =
     (case add_items xs found of (rs, found') \<Rightarrow> (x # rs, found'))"
| "add_fields [] found = ([], found)"
| "add_fields ((k, PList xs) # fs) found =
     (case add_items xs found of
        (xs', found') \<Rightarrow>
          (case add_fields fs found' of (fs', found'') \<Rightarrow> ((k, PList xs') # fs', found'')))"
| "add_fields ((k, Node c' fs') # fs) found =
     (case add_visit (Node c' fs') found of
        (r, found') \<Rightarrow>
          (case add_fields fs found' of
             (rest, found'') \<Rightarrow>
               (case r of PNone \<Rightarrow> (rest, found'') | _ \<Rightarrow> ((k, r) # rest, found''))))"
| "add_fields ((k, v) # fs) found =
     (case add_fields fs found of (rest, found') \<Rightarrow> ((k, v) # rest, found'))"

section \<open>The engine: \<^verbatim>\<open>refactor_code_ast\<close>\<close>

text \<open>
  \<^verbatim>\<open>ast.fix_missing_locations\<close> only fills in the position attributes, which the model
  does not carry.
\<close>

definition fix_missing_locations :: "pyval \<Rightarrow> pyval" where
  "fix_missing_locations tree = tree"

text \<open>
  One stage of the \<^verbatim>\<open>try\<close> block: the exception of its recursion, or its result.
\<close>

definition run_stage :: "interp \<Rightarrow> stage \<Rightarrow> (pyval \<Rightarrow> pyval) \<Rightarrow> pyval \<Rightarrow> string + pyval" where
  "run_stage I s f tree = (case stage_error I s tree of Some e \<Rightarrow> Inl e | None \<Rightarrow> Inr (f tree))"

text \<open>
  Lines 77 to 80: the three passes in order, each with a fresh transformer, and
  \<^verbatim>\<open>fix_missing_locations\<close>. \<open>Inl\<close> is the exception that ends them.
\<close>

definition transform_tree :: "interp \<Rightarrow> pyval \<Rightarrow> string + pyval" where
  "transform_tree I tree =
     (case run_stage I RemoveImports rm_visit tree of
        Inl e \<Rightarrow> Inl e
      | Inr tree \<Rightarrow>
     (case run_stage I RewriteCalls (call_visit I) tree of
        Inl e \<Rightarrow> Inl e
      | Inr tree \<Rightarrow>
     (case run_stage I AddImport (\<lambda>tree. fst (add_visit tree False)) tree of
        Inl e \<Rightarrow> Inl e
      | Inr tree \<Rightarrow> run_stage I FixLocations fix_missing_locations tree)))"

definition error_marker :: "string \<Rightarrow> string \<Rightarrow> string" where
  "error_marker e code = ''# [Error]: AST transformation failed due to '' @ e @ [CHR 0x0A] @ code"

definition refactor_code_ast :: "interp \<Rightarrow> string \<Rightarrow> string" where
  "refactor_code_ast I code =
     (case parse I code of
        Inl e \<Rightarrow> error_marker e code
      | Inr body \<Rightarrow>
          (case transform_tree I (Module body) of
             Inl e \<Rightarrow> error_marker e code
           | Inr tree \<Rightarrow>
               (case unparse I tree of
                  Inl e \<Rightarrow> error_marker e code
                | Inr text \<Rightarrow> text)))"

subsection \<open>What a tree contains\<close>

text \<open>
  The nodes of a tree, as \<^verbatim>\<open>ast.walk\<close> reaches them: the node itself, the nodes in
  its fields and the nodes in the lists in its fields.
\<close>

fun walk :: "pyval \<Rightarrow> pyval list"
  and walk_items :: "pyval list \<Rightarrow> pyval list"
  and walk_fields :: "(string \<times> pyval) list \<Rightarrow> pyval list"
where
  "walk (Node c fs) = Node c fs # walk_fields fs"
| "walk v = []"
| "walk_items [] = []"
| "walk_items (x # xs) = walk x @ walk_items xs"
| "walk_fields [] = []"
| "walk_fields ((k, PList xs) # fs) = walk_items xs @ walk_fields fs"
| "walk_fields ((k, v) # fs) = walk v @ walk_fields fs"

text \<open>The nodes in the value of a field: those of a node, or of the items of a list.\<close>

definition nodes_of :: "pyval \<Rightarrow> pyval list" where
  "nodes_of v = (case v of PList ys \<Rightarrow> walk_items ys | _ \<Rightarrow> walk v)"

definition module_body :: "pyval \<Rightarrow> pyval list" where
  "module_body tree = (case attr tree ''body'' of PList xs \<Rightarrow> xs | _ \<Rightarrow> [])"

text \<open>An import that binds \<^verbatim>\<open>rsa\<close>: \<^verbatim>\<open>import ..., rsa, ...\<close> or \<^verbatim>\<open>from rsa import ...\<close>.\<close>

definition binds_rsa :: "pyval \<Rightarrow> bool" where
  "binds_rsa n =
     ((isinstance n ''Import'' \<and> list_ex (\<lambda>a. attr a ''name'' = PStr ''rsa'') (names_of n))
      \<or> (isinstance n ''ImportFrom'' \<and> attr n ''module'' = PStr ''rsa''))"

text \<open>
  The imports that pass 1 deletes: an \<^verbatim>\<open>import\<close> none of whose names differs from
  \<^verbatim>\<open>rsa\<close>, and a \<^verbatim>\<open>from rsa import ...\<close>.
\<close>

definition rsa_only_import :: "pyval \<Rightarrow> bool" where
  "rsa_only_import n =
     ((isinstance n ''Import'' \<and> filter (\<lambda>a. attr a ''name'' \<noteq> PStr ''rsa'') (names_of n) = [])
      \<or> (isinstance n ''ImportFrom'' \<and> attr n ''module'' = PStr ''rsa''))"

text \<open>An expression: a value with no import statement and no module inside it.\<close>

definition no_statements :: "pyval \<Rightarrow> bool" where
  "no_statements v =
     list_all (\<lambda>n. \<not> isinstance n ''Import'' \<and> \<not> isinstance n ''ImportFrom'' \<and> \<not> isinstance n ''Module'')
       (nodes_of v)"


definition is_pqc_import :: "pyval \<Rightarrow> bool" where
  "is_pqc_import n = (isinstance n ''ImportFrom'' \<and> attr n ''module'' = PStr ''pqc_helpers'')"


section \<open>Strings\<close>

text \<open>\<^verbatim>\<open>sub in s\<close>, \<^verbatim>\<open>s.rstrip("\n")\<close> and \<^verbatim>\<open>f.readlines()\<close>.\<close>

fun contains :: "string \<Rightarrow> string \<Rightarrow> bool" where
  "contains sub [] = (sub = [])"
| "contains sub (c # cs) = (prefix sub (c # cs) \<or> contains sub cs)"

definition rstrip_newline :: "string \<Rightarrow> string" where
  "rstrip_newline s = rev (dropWhile (\<lambda>c. c = CHR 0x0A) (rev s))"

fun readlines_from :: "string \<Rightarrow> string \<Rightarrow> string list" where
  "readlines_from cur [] = (if cur = [] then [] else [cur])"
| "readlines_from cur (c # cs) =
     (if c = CHR 0x0A then (cur @ [c]) # readlines_from [] cs else readlines_from (cur @ [c]) cs)"

definition readlines :: "string \<Rightarrow> string list" where
  "readlines text = readlines_from [] text"

section \<open>The source tree on disk\<close>

text \<open>
  A file has a text and may be unreadable or read-only. \<^verbatim>\<open>open(p, "r")\<close> raises on a
  missing or unreadable file; \<^verbatim>\<open>open(p, "w")\<close> raises on a read-only file, before it
  truncates it, and creates a missing one. The exception is kept as its message.
\<close>

record file_entry =
  data :: string
  readable :: bool
  writable :: bool

type_synonym disk = "string \<rightharpoonup> file_entry"

definition read_text :: "disk \<Rightarrow> string \<Rightarrow> string + string" where
  "read_text d p =
     (case d p of
        None \<Rightarrow> Inl ''No such file or directory''
      | Some f \<Rightarrow> if readable f then Inr (data f) else Inl ''Permission denied'')"

definition write_text :: "disk \<Rightarrow> string \<Rightarrow> string \<Rightarrow> string + disk" where
  "write_text d p text =
     (case d p of
        None \<Rightarrow> Inr (d(p \<mapsto> \<lparr>data = text, readable = True, writable = True\<rparr>))
      | Some f \<Rightarrow> if writable f then Inr (d(p \<mapsto> f\<lparr>data := text\<rparr>)) else Inl ''Permission denied'')"

section \<open>\<^verbatim>\<open>scanner.py\<close>\<close>

datatype risk = High | Medium | Low | Unknown | Review

text \<open>
  One entry of the analyzer's \<^verbatim>\<open>results\<close> array: \<^verbatim>\<open>res.get("path")\<close>,
  \<^verbatim>\<open>res.get("extra", {}).get("message")\<close> and \<^verbatim>\<open>res.get("start", {}).get("line")\<close>,
  each \<open>None\<close> when the key is missing.
\<close>

record semgrep_result =
  res_path :: "string option"
  res_message :: "string option"
  res_line :: "int option"

definition result_message :: "semgrep_result \<Rightarrow> string" where
  "result_message res = (case res_message res of None \<Rightarrow> [] | Some m \<Rightarrow> m)"

definition assess_risk :: "interp \<Rightarrow> semgrep_result \<Rightarrow> risk" where
  "assess_risk I result =
     (let msg = strip I (lower I (result_message result)) in
      if prefix ''insecure rsa key usage detected'' msg then
        (if contains ''>=3072'' msg \<or> contains ''kyber'' msg then Low else High)
      else if prefix ''insecure use of md5 detected'' msg then High
      else if prefix ''insecure use of sha-1 detected'' msg then High
      else if prefix ''insecure use of ecdsa detected'' msg then High
      else if prefix ''insecure use of triple des detected'' msg
              \<or> (contains ''3des'' msg \<and> contains ''insecure'' msg) then Medium
      else if prefix ''insecure use of diffie'' msg
              \<or> (contains ''diffie'' msg \<and> contains ''insecure'' msg) then Low
      else if prefix ''insecure hmac with md5 detected'' msg then High
      else Low)"

text \<open>The conditions of the rules of \<^verbatim>\<open>assess_risk\<close>, on the normalized message.\<close>

definition matches_rule :: "string \<Rightarrow> bool" where
  "matches_rule msg =
     (prefix ''insecure rsa key usage detected'' msg
      \<or> prefix ''insecure use of md5 detected'' msg
      \<or> prefix ''insecure use of sha-1 detected'' msg
      \<or> prefix ''insecure use of ecdsa detected'' msg
      \<or> prefix ''insecure use of triple des detected'' msg
      \<or> (contains ''3des'' msg \<and> contains ''insecure'' msg)
      \<or> prefix ''insecure use of diffie'' msg
      \<or> (contains ''diffie'' msg \<and> contains ''insecure'' msg)
      \<or> prefix ''insecure hmac with md5 detected'' msg)"

text \<open>
  The \<^verbatim>\<open>line\<close> of a finding is the text \<^verbatim>\<open>"N/A"\<close> or \<^verbatim>\<open>str(n)\<close> of an integer; the
  model keeps which of the two it is, and the integer.
\<close>

datatype line_text = NA | LineNo int

record finding =
  file' :: string
  real_path :: string
  line :: line_text
  message :: string
  risk :: risk
  code :: string

text \<open>
  \<^verbatim>\<open>anonymize_path\<close> with \<^verbatim>\<open>levels=2\<close>; \<^verbatim>\<open>os.path.normpath\<close> is a parameter and
  \<^verbatim>\<open>os.sep\<close> is the slash.
\<close>

fun split_sep_from :: "string \<Rightarrow> string \<Rightarrow> string list" where
  "split_sep_from cur [] = [cur]"
| "split_sep_from cur (c # cs) =
     (if c = CHR ''/'' then cur # split_sep_from [] cs else split_sep_from (cur @ [c]) cs)"

fun join_sep :: "string list \<Rightarrow> string" where
  "join_sep [] = []"
| "join_sep [p] = p"
| "join_sep (p # ps) = p @ ''/'' @ join_sep ps"

definition anonymize_path :: "(string \<Rightarrow> string) \<Rightarrow> string \<Rightarrow> string" where
  "anonymize_path normpath full_path =
     (let parts = split_sep_from [] (normpath full_path) in
      if length parts \<ge> 2 then join_sep (drop (length parts - 2) parts) else full_path)"

text \<open>Python's \<^verbatim>\<open>xs[i]\<close>: a negative index counts from the end, out of range raises.\<close>

definition py_index :: "'a list \<Rightarrow> int \<Rightarrow> 'a option" where
  "py_index xs i =
     (if 0 \<le> i \<and> i < int (length xs) then Some (xs ! nat i)
      else if i < 0 \<and> - int (length xs) \<le> i then Some (xs ! nat (int (length xs) + i))
      else None)"

text \<open>
  What the scan needs from outside, besides the interpreter: the analyzer (\<^verbatim>\<open>run_semgrep\<close> on one batch gives
  \<open>Some\<close> of the \<^verbatim>\<open>results\<close> array, or \<open>None\<close> for the empty dictionary it returns on
  failure) and \<^verbatim>\<open>os.path.normpath\<close>.
\<close>

record scan_env =
  run_semgrep :: "string list \<Rightarrow> semgrep_result list option"
  normpath :: "string \<Rightarrow> string"

record scan_config =
  cfg_dry_run :: bool
  cfg_verbose :: bool
  cfg_anonymize :: bool

definition display_path :: "scan_env \<Rightarrow> scan_config \<Rightarrow> string \<Rightarrow> string" where
  "display_path E cfg file_path =
     (if cfg_anonymize cfg then anonymize_path (normpath E) file_path else file_path)"

function batches :: "'a list \<Rightarrow> 'a list list" where
  "batches xs = (if xs = [] then [] else take 100 xs # batches (drop 100 xs))"
  by pat_completeness auto
termination
  by (relation "measure length") auto

definition batch_results :: "scan_env \<Rightarrow> string list \<Rightarrow> semgrep_result list" where
  "batch_results E batch = (case run_semgrep E batch of None \<Rightarrow> [] | Some rs \<Rightarrow> rs)"

definition semgrep_results :: "scan_env \<Rightarrow> string list \<Rightarrow> semgrep_result list" where
  "semgrep_results E file_list =
     (if length file_list \<le> 100 then batch_results E file_list
      else concat (map (batch_results E) (batches file_list)))"

text \<open>Lines 136 to 159: one finding for each analyzer result whose message mentions rsa.\<close>

definition code_snippet :: "disk \<Rightarrow> string \<Rightarrow> int \<Rightarrow> string" where
  "code_snippet d file_path line_num =
     (case read_text d file_path of
        Inl e \<Rightarrow> []
      | Inr text \<Rightarrow>
          (let lines = readlines text in
           if line_num \<le> int (length lines) then
             (case py_index lines (line_num - 1) of None \<Rightarrow> [] | Some l \<Rightarrow> rstrip_newline l)
           else []))"

definition structured_finding :: "interp \<Rightarrow> scan_env \<Rightarrow> scan_config \<Rightarrow> disk \<Rightarrow> semgrep_result \<Rightarrow> finding" where
  "structured_finding I E cfg d res =
     (let file_path = (case res_path res of None \<Rightarrow> [] | Some p \<Rightarrow> p) in
      \<lparr>file' = display_path E cfg file_path,
       real_path = file_path,
       line = (case res_line res of None \<Rightarrow> NA | Some n \<Rightarrow> LineNo n),
       message = ''RSA detected'',
       risk = assess_risk I res,
       code = (case res_line res of None \<Rightarrow> [] | Some n \<Rightarrow> code_snippet d file_path n)\<rparr>)"

fun structured_findings :: "interp \<Rightarrow> scan_env \<Rightarrow> scan_config \<Rightarrow> disk \<Rightarrow> semgrep_result list \<Rightarrow> finding list" where
  "structured_findings I E cfg d [] = []"
| "structured_findings I E cfg d (res # rest) =
     (if \<not> contains ''rsa'' (lower I (result_message res)) then structured_findings I E cfg d rest
      else structured_finding I E cfg d res # structured_findings I E cfg d rest)"

text \<open>Lines 161 to 182: the text search, appending to the findings gathered so far.\<close>

definition already_reported :: "finding list \<Rightarrow> string \<Rightarrow> int \<Rightarrow> bool" where
  "already_reported findings file_path idx =
     list_ex (\<lambda>f. real_path f = file_path \<and> line f = LineNo idx) findings"

definition fallback_finding :: "interp \<Rightarrow> scan_env \<Rightarrow> scan_config \<Rightarrow> string \<Rightarrow> int \<Rightarrow> string \<Rightarrow> finding" where
  "fallback_finding I E cfg file_path idx l =
     \<lparr>file' = display_path E cfg file_path,
      real_path = file_path,
      line = LineNo idx,
      message = ''Unmatched RSA reference'',
      risk = Review,
      code = strip I l\<rparr>"

fun fallback_lines ::
  "interp \<Rightarrow> scan_env \<Rightarrow> scan_config \<Rightarrow> string \<Rightarrow> int \<Rightarrow> string list \<Rightarrow> finding list \<Rightarrow> finding list" where
  "fallback_lines I E cfg file_path idx [] findings = findings"
| "fallback_lines I E cfg file_path idx (l # ls) findings =
     fallback_lines I E cfg file_path (idx + 1) ls
       (if contains ''rsa'' (lower I l) \<and> \<not> already_reported findings file_path idx
        then findings @ [fallback_finding I E cfg file_path idx l]
        else findings)"

fun fallback_files :: "interp \<Rightarrow> scan_env \<Rightarrow> scan_config \<Rightarrow> disk \<Rightarrow> string list \<Rightarrow> finding list \<Rightarrow> finding list" where
  "fallback_files I E cfg d [] findings = findings"
| "fallback_files I E cfg d (file_path # rest) findings =
     fallback_files I E cfg d rest
       (case read_text d file_path of
          Inl e \<Rightarrow> findings
        | Inr text \<Rightarrow> fallback_lines I E cfg file_path 1 (readlines text) findings)"

text \<open>
  \<^verbatim>\<open>scan_codebase\<close> from line 112 on, that is, once the walk over the directory has
  produced the list of candidate files.
\<close>

definition scan_files :: "interp \<Rightarrow> scan_env \<Rightarrow> scan_config \<Rightarrow> disk \<Rightarrow> string list \<Rightarrow> finding list" where
  "scan_files I E cfg d file_list =
     (if length file_list = 0 then []
      else if cfg_dry_run cfg then []
      else fallback_files I E cfg d file_list
             (structured_findings I E cfg d (semgrep_results E file_list)))"


definition is_fallback :: "finding \<Rightarrow> bool" where
  "is_fallback f = (message f = ''Unmatched RSA reference'')"

definition finding_key :: "finding \<Rightarrow> string \<times> line_text" where
  "finding_key f = (real_path f, line f)"

section \<open>\<^verbatim>\<open>report.py\<close>\<close>

definition get_recommendation :: "interp \<Rightarrow> finding \<Rightarrow> string" where
  "get_recommendation I f =
     (let msg = lower I (message f) in
      if contains ''rsa'' msg
      then ''Replace RSA usage with PQC key generation (e.g., Kyber) and reissue keys.''
      else ''Review the finding.'')"

text \<open>
  The final report is a template filled with the values below; the model keeps the
  values and the sentence of step 2, which the template chooses by the flag
  \<^verbatim>\<open>key_reissuance_done\<close>. The percentage, a floating-point quotient of the two
  counts, is left out.
\<close>

record detail =
  detail_file :: string
  detail_line :: line_text
  detail_issue :: string
  detail_recommendation :: string

record migration_report =
  total_files_scanned :: nat
  total_vulnerable_files :: nat
  details :: "detail list"
  key_reissuance_done :: bool
  next_step_2 :: string

definition generate_final_report :: "interp \<Rightarrow> nat \<Rightarrow> nat \<Rightarrow> finding list \<Rightarrow> bool \<Rightarrow> migration_report" where
  "generate_final_report I scanned vulnerable findings reissuance_done =
     \<lparr>total_files_scanned = scanned,
      total_vulnerable_files = vulnerable,
      details = map (\<lambda>f. \<lparr>detail_file = file' f, detail_line = line f,
                            detail_issue = message f,
                            detail_recommendation = get_recommendation I f\<rparr>) findings,
      key_reissuance_done = reissuance_done,
      next_step_2 = (if reissuance_done then ''PQC keys have been automatically reissued.''
                     else ''Please trigger key reissuance manually.'')\<rparr>"

section \<open>\<^verbatim>\<open>refactor_file\<close> and the \<^verbatim>\<open>migrate\<close> command\<close>

text \<open>What the run prints, one constructor for each message of the source.\<close>

datatype event =
    StartingScan
  | NoVulnerabilities
  | DisplayReport "finding list"
  | JsonSaved string
  | JsonError string string
  | Refactoring string bool
  | DryRunPreview string string
  | Updated string
  | ErrorRefactoring string string
  | RunningTests
  | TestsFailed
  | AllTestsPassed
  | FinalReport migration_report
  | RefactoringAborted

text \<open>
  The state of a run: the files, what was printed, and how often \<^verbatim>\<open>reissue_keys\<close>
  was called (the key file it writes is named after the clock and is not a source
  file; it is not modelled).
\<close>

record world =
  files :: disk
  printed :: "event list"
  reissued :: nat

text \<open>The libraries behind the run; \<^verbatim>\<open>json.dumps\<close> gives the text that \<^verbatim>\<open>save_json\<close> writes.\<close>

record libs =
  py :: interp
  scanning :: scan_env
  json_dumps :: "finding list \<Rightarrow> string"

definition echo :: "event \<Rightarrow> world \<Rightarrow> world" where
  "echo e w = w\<lparr>printed := printed w @ [e]\<rparr>"

text \<open>\<^verbatim>\<open>refactor_file\<close>: \<open>Inl\<close> is the exception that leaves it, \<open>Inr\<close> the returned text.\<close>

definition refactor_file :: "libs \<Rightarrow> string \<Rightarrow> finding list \<Rightarrow> bool \<Rightarrow> world \<Rightarrow> string + string \<times> world" where
  "refactor_file L file_path vulnerabilities dry_run w =
     (case read_text (files w) file_path of
        Inl e \<Rightarrow> Inl e
      | Inr original_code \<Rightarrow>
          (let refactored_code = refactor_code_ast (py L) original_code in
           if dry_run then Inr (original_code, echo (DryRunPreview file_path refactored_code) w)
           else
             (case write_text (files w) file_path refactored_code of
                Inl e \<Rightarrow> Inl e
              | Inr d \<Rightarrow> Inr (refactored_code, w\<lparr>files := d\<rparr>))))"

definition reissue_keys :: "world \<Rightarrow> world" where
  "reissue_keys w = w\<lparr>reissued := reissued w + 1\<rparr>"

text \<open>\<^verbatim>\<open>test_runner.run_tests\<close> simulates the test suite: the flag and the message.\<close>

definition run_tests :: "string \<Rightarrow> bool \<times> string" where
  "run_tests root_path = (True, ''All tests passed.'')"

definition save_json :: "libs \<Rightarrow> finding list \<Rightarrow> string \<Rightarrow> world \<Rightarrow> world" where
  "save_json L findings json_path w =
     (case write_text (files w) json_path (json_dumps L findings) of
        Inl e \<Rightarrow> echo (JsonError json_path e) w
      | Inr d \<Rightarrow> echo (JsonSaved json_path) (w\<lparr>files := d\<rparr>))"

text \<open>
  \<^verbatim>\<open>files_to_refactor.setdefault(fpath, []).append(finding)\<close> on an ordered dictionary;
  \<^verbatim>\<open>fpath\<close> is the \<^verbatim>\<open>real_path\<close> of the finding, which every finding of the scan has.
\<close>

fun setdefault_append :: "string \<Rightarrow> finding \<Rightarrow> (string \<times> finding list) list \<Rightarrow> (string \<times> finding list) list" where
  "setdefault_append k v [] = [(k, [v])]"
| "setdefault_append k v ((k', vs) # rest) =
     (if k = k' then (k', vs @ [v]) # rest else (k', vs) # setdefault_append k v rest)"

definition files_to_refactor :: "finding list \<Rightarrow> (string \<times> finding list) list" where
  "files_to_refactor findings = foldl (\<lambda>acc f. setdefault_append (real_path f) f acc) [] findings"

text \<open>The body of the loop over \<^verbatim>\<open>files_to_refactor.items()\<close>, lines 106 to 115 of \<^verbatim>\<open>migrate\<close>.\<close>

definition refactor_one :: "libs \<Rightarrow> bool \<Rightarrow> string \<times> finding list \<Rightarrow> world \<Rightarrow> world" where
  "refactor_one L dry_run item w =
     (let file_path = fst item; vulns = snd item;
          w1 = echo (Refactoring file_path dry_run) w in
      case refactor_file L file_path vulns dry_run w1 of
        Inl e \<Rightarrow> echo (ErrorRefactoring file_path e) w1
      | Inr (new_content, w2) \<Rightarrow>
          if \<not> dry_run then
            (case write_text (files w2) file_path new_content of
               Inl e \<Rightarrow> echo (ErrorRefactoring file_path e) w2
             | Inr d \<Rightarrow> echo (Updated file_path) (w2\<lparr>files := d\<rparr>))
          else w2)"

fun refactor_all :: "libs \<Rightarrow> bool \<Rightarrow> (string \<times> finding list) list \<Rightarrow> world \<Rightarrow> world" where
  "refactor_all L dry_run [] w = w"
| "refactor_all L dry_run (item # rest) w = refactor_all L dry_run rest (refactor_one L dry_run item w)"

text \<open>
  The \<^verbatim>\<open>migrate\<close> command. The walk over \<^verbatim>\<open>path\<close> gives the candidate files of the scan
  and the count \<^verbatim>\<open>total_files_scanned\<close>; the two prompts are answered by
  \<open>confirm_refactor\<close> and \<open>confirm_reissue\<close>, the second being asked only outside
  dry-run mode. An empty \<^verbatim>\<open>--json-output\<close> counts as none.
\<close>

record migrate_args =
  path :: string
  dry_run :: bool
  json_output :: "string option"
  config :: scan_config
  file_list :: "string list"
  files_walked :: nat
  confirm_refactor :: bool
  confirm_reissue :: bool

definition migrate :: "libs \<Rightarrow> migrate_args \<Rightarrow> world \<Rightarrow> world" where
  "migrate L a w0 =
     (let w = echo StartingScan w0;
          findings = scan_files (py L) (scanning L) (config a) (files w) (file_list a);
          scanned = files_walked a in
      if findings = [] then echo NoVulnerabilities w
      else
        (let w = echo (DisplayReport findings) w;
             w = (case json_output a of
                    None \<Rightarrow> w
                  | Some json_path \<Rightarrow> if json_path = [] then w else save_json L findings json_path w) in
         if confirm_refactor a then
           (let groups = files_to_refactor findings;
                w = refactor_all L (dry_run a) groups w;
                w = (if \<not> dry_run a \<and> confirm_reissue a then reissue_keys w else w);
                w = echo RunningTests w;
                test_result = run_tests (path a) in
            if \<not> fst test_result then echo TestsFailed w
            else
              (let w = echo AllTestsPassed w;
                   final_report = generate_final_report (py L) scanned (length groups) findings (\<not> dry_run a) in
               echo (FinalReport final_report) w))
         else echo RefactoringAborted w))"

text \<open>The final report of a run, if it printed one.\<close>

fun final_report_of :: "event list \<Rightarrow> migration_report option" where
  "final_report_of [] = None"
| "final_report_of (FinalReport r # es) = Some r"
| "final_report_of (e # es) = final_report_of es"

section \<open>Counting what a run reports\<close>

fun is_error_for :: "string \<Rightarrow> event \<Rightarrow> bool" where
  "is_error_for p (ErrorRefactoring q e) = (p = q)"
| "is_error_for p ev = False"

definition error_count :: "string \<Rightarrow> event list \<Rightarrow> nat" where
  "error_count p evs = length (filter (is_error_for p) evs)"

section \<open>Example inputs\<close>

text \<open>
  The trees of three small sources. \<^verbatim>\<open>import rsa, os\<close>:
\<close>

definition import_rsa_os :: pyval where
  "import_rsa_os = Import [alias_node ''rsa'' PNone, alias_node ''os'' PNone]"

text \<open>\<^verbatim>\<open>rsa.f(args)\<close>, and the module \<^verbatim>\<open>rsa.encrypt(a, rsa.decrypt(b, c))\<close>:\<close>

definition rsa_call :: "string \<Rightarrow> pyval list \<Rightarrow> pyval" where
  "rsa_call f args = Call (Attribute (Name ''rsa'') f) (PList args) (PList [])"

definition nested_call_module :: pyval where
  "nested_call_module =
     Module [Expr (rsa_call ''encrypt'' [Name ''a'', rsa_call ''decrypt'' [Name ''b'', Name ''c'']])]"

text \<open>
  The module that the text printed for \<open>transform_tree nested_call_module\<close> parses to: the
  import, the call statement and the marker statement.
\<close>

definition nested_call_migrated :: pyval where
  "nested_call_migrated =
     Module [pqc_import,
             Expr (Call (Name ''oqs_encrypt'')
                        (PList [Name ''a'', rsa_call ''decrypt'' [Name ''b'', Name ''c'']]) (PList [])),
             migration_comment ''encrypt'' ''oqs_encrypt'']"

text \<open>
  What the passes make of \<open>nested_call_module\<close>, of that result, and of
  \<open>nested_call_migrated\<close>: after the first application the inner call is still
  \<^verbatim>\<open>rsa.decrypt(b, c)\<close>; the next one rewrites it and splices its marker into the
  arguments.
\<close>

definition nested_call_once :: pyval where
  "nested_call_once =
     Module [pqc_import,
             Expr (PList [Call (Name ''oqs_encrypt'')
                               (PList [Name ''a'', rsa_call ''decrypt'' [Name ''b'', Name ''c'']]) (PList []),
                          migration_comment ''encrypt'' ''oqs_encrypt''])]"

definition nested_call_twice :: pyval where
  "nested_call_twice =
     Module [pqc_import,
             Expr (PList [Call (Name ''oqs_encrypt'')
                               (PList [Name ''a'',
                                       Call (Name ''oqs_decrypt'') (PList [Name ''b'', Name ''c'']) (PList []),
                                       migration_comment ''decrypt'' ''oqs_decrypt'']) (PList []),
                          migration_comment ''encrypt'' ''oqs_encrypt''])]"

definition nested_call_remigrated :: pyval where
  "nested_call_remigrated =
     Module [pqc_import,
             Expr (Call (Name ''oqs_encrypt'')
                        (PList [Name ''a'',
                                Call (Name ''oqs_decrypt'') (PList [Name ''b'', Name ''c'']) (PList []),
                                migration_comment ''decrypt'' ''oqs_decrypt'']) (PList [])),
             migration_comment ''encrypt'' ''oqs_encrypt'']"

text \<open>
  \<^verbatim>\<open>import rsa\<close>, \<^verbatim>\<open>from pqc_helpers import oqs_encrypt\<close>, \<^verbatim>\<open>rsa.encrypt(a, b)\<close>: a file
  that already imports one of the replacements.
\<close>

definition partly_migrated_module :: pyval where
  "partly_migrated_module =
     Module [Import [alias_node ''rsa'' PNone],
             ImportFrom ''pqc_helpers'' [alias_node ''oqs_encrypt'' PNone] 0,
             Expr (rsa_call ''encrypt'' [Name ''a'', Name ''b''])]"

text \<open>The module of Scenario 1: \<^verbatim>\<open>import rsa\<close>, \<^verbatim>\<open>rsa.encrypt(a, b)\<close>.\<close>

definition scenario_module_body :: "pyval list" where
  "scenario_module_body =
     [Import [alias_node ''rsa'' PNone], Expr (rsa_call ''encrypt'' [Name ''a'', Name ''b''])]"

text \<open>
  The sum \<^verbatim>\<open>a + a + ... + a\<close> of \<open>n + 1\<close> terms: its tree, nested to the left as the
  parser builds it, and its text. \<open>deep_source\<close> has 500 terms.
\<close>

definition BinOp :: "pyval \<Rightarrow> pyval \<Rightarrow> pyval \<Rightarrow> pyval" where
  "BinOp l oper r = Node ''BinOp'' [(''left'', l), (''op'', oper), (''right'', r)]"

fun sum_tree :: "nat \<Rightarrow> pyval" where
  "sum_tree 0 = Name ''a''"
| "sum_tree (Suc n) = BinOp (sum_tree n) (Node ''Add'' []) (Name ''a'')"

fun sum_text :: "nat \<Rightarrow> string" where
  "sum_text 0 = ''a''"
| "sum_text (Suc n) = ''a + '' @ sum_text n"

definition deep_source :: string where
  "deep_source = sum_text 499"

definition deep_body :: "pyval list" where
  "deep_body = [Expr (sum_tree 499)]"

text \<open>\<^verbatim>\<open>import rsa\<close> and \<^verbatim>\<open>rsa.encrypt(a, a + ... + a)\<close>, on two lines.\<close>

definition deep_rsa_source :: string where
  "deep_rsa_source = ''import rsa'' @ [CHR 0x0A] @ ''rsa.encrypt(a, '' @ sum_text 499 @ '')''"

definition deep_rsa_body :: "pyval list" where
  "deep_rsa_body =
     [Import [alias_node ''rsa'' PNone], Expr (rsa_call ''encrypt'' [Name ''a'', sum_tree 499])]"

text \<open>How deeply the nodes of a tree are nested.\<close>

fun depth :: "pyval \<Rightarrow> nat"
  and depth_items :: "pyval list \<Rightarrow> nat"
  and depth_fields :: "(string \<times> pyval) list \<Rightarrow> nat"
where
  "depth (Node c fs) = Suc (depth_fields fs)"
| "depth v = 0"
| "depth_items [] = 0"
| "depth_items (x # xs) = max (depth x) (depth_items xs)"
| "depth_fields [] = 0"
| "depth_fields ((k, PList xs) # fs) = max (depth_items xs) (depth_fields fs)"
| "depth_fields ((k, v) # fs) = max (depth v) (depth_fields fs)"

text \<open>
  An interpreter that behaves as CPython and its libraries do on the texts and trees of
  the examples.
  \<^item> \<^verbatim>\<open>import rsa\<close>, \<^verbatim>\<open>import os\<close> and the two deep sources parse; the other text is a
    syntax error.
  \<^item> With the default limit of 1000 frames, a visitor that descends through every node,
    at two frames a level, runs out of stack on a tree nested 500 deep.
  \<^item> On ASCII text \<^verbatim>\<open>str.lower\<close> maps the capital letters and \<^verbatim>\<open>str.strip\<close> removes
    the leading and trailing characters 9 to 13 and 28 to 32.
\<close>

definition demo_parse :: "string \<Rightarrow> string + pyval list" where
  "demo_parse src =
     (if src = ''import rsa'' then Inr [Import [alias_node ''rsa'' PNone]]
      else if src = ''import os'' then Inr [Import [alias_node ''os'' PNone]]
      else if src = deep_source then Inr deep_body
      else if src = deep_rsa_source then Inr deep_rsa_body
      else Inl ''invalid syntax (<unknown>, line 1)'')"

definition demo_unparse :: "pyval \<Rightarrow> string + string" where
  "demo_unparse tree =
     (if tree = Module [pqc_import]
      then Inr ([CHR 0x0A] @ ''from pqc_helpers import oqs_generate_keypair, oqs_encrypt, oqs_decrypt, oqs_sign, oqs_verify'' @ [CHR 0x0A])
      else if tree = Module [pqc_import, Import [alias_node ''os'' PNone]]
      then Inr ([CHR 0x0A] @ ''from pqc_helpers import oqs_generate_keypair, oqs_encrypt, oqs_decrypt, oqs_sign, oqs_verify'' @ [CHR 0x0A] @ ''import os'' @ [CHR 0x0A])
      else Inl ''unsupported tree'')"

definition demo_stage_error :: "stage \<Rightarrow> pyval \<Rightarrow> string option" where
  "demo_stage_error s tree =
     (if s = RemoveImports \<and> 500 \<le> depth tree then Some ''maximum recursion depth exceeded''
      else None)"

definition ascii_lower_char :: "char \<Rightarrow> char" where
  "ascii_lower_char c =
     (let n = (of_char c :: nat) in if 65 \<le> n \<and> n \<le> 90 then char_of (n + 32) else c)"

definition ascii_lower :: "string \<Rightarrow> string" where
  "ascii_lower s = map ascii_lower_char s"

definition ascii_space :: "char \<Rightarrow> bool" where
  "ascii_space c = (let n = (of_char c :: nat) in (9 \<le> n \<and> n \<le> 13) \<or> (28 \<le> n \<and> n \<le> 32))"

definition ascii_strip :: "string \<Rightarrow> string" where
  "ascii_strip s = rev (dropWhile ascii_space (rev (dropWhile ascii_space s)))"

definition demo_interp :: interp where
  "demo_interp =
     \<lparr>parse = demo_parse, unparse = demo_unparse, stage_error = demo_stage_error,
      lower = ascii_lower, strip = ascii_strip\<rparr>"

text \<open>
  \<^verbatim>\<open>json.dumps(findings, indent=2)\<close> for findings whose strings need no escaping.
\<close>

fun digits :: "nat \<Rightarrow> nat \<Rightarrow> string" where
  "digits 0 n = []"
| "digits (Suc fuel) n =
     (if n < 10 then [char_of (48 + n)] else digits fuel (n div 10) @ [char_of (48 + n mod 10)])"

definition str_int :: "int \<Rightarrow> string" where
  "str_int i = (if i < 0 then ''-'' @ digits (Suc (nat (- i))) (nat (- i)) else digits (Suc (nat i)) (nat i))"

definition quoted :: "string \<Rightarrow> string" where
  "quoted s = [CHR 0x22] @ s @ [CHR 0x22]"

definition json_entry :: "string \<Rightarrow> string \<Rightarrow> string" where
  "json_entry k v = ''    '' @ quoted k @ '': '' @ quoted v"

definition risk_text :: "risk \<Rightarrow> string" where
  "risk_text r = (case r of High \<Rightarrow> ''High'' | Medium \<Rightarrow> ''Medium'' | Low \<Rightarrow> ''Low''
                  | Unknown \<Rightarrow> ''Unknown'' | Review \<Rightarrow> ''Review'')"

definition line_shown :: "line_text \<Rightarrow> string" where
  "line_shown l = (case l of NA \<Rightarrow> ''N/A'' | LineNo n \<Rightarrow> str_int n)"

definition json_finding :: "finding \<Rightarrow> string" where
  "json_finding f =
     ''  {'' @ [CHR 0x0A]
     @ json_entry ''file'' (file' f) @ '','' @ [CHR 0x0A]
     @ json_entry ''real_path'' (real_path f) @ '','' @ [CHR 0x0A]
     @ json_entry ''line'' (line_shown (line f)) @ '','' @ [CHR 0x0A]
     @ json_entry ''message'' (message f) @ '','' @ [CHR 0x0A]
     @ json_entry ''risk'' (risk_text (risk f)) @ '','' @ [CHR 0x0A]
     @ json_entry ''code'' (code f) @ [CHR 0x0A]
     @ ''  }''"

fun json_findings :: "finding list \<Rightarrow> string" where
  "json_findings [] = []"
| "json_findings [f] = json_finding f @ [CHR 0x0A]"
| "json_findings (f # fs) = json_finding f @ '','' @ [CHR 0x0A] @ json_findings fs"

definition demo_json_dumps :: "finding list \<Rightarrow> string" where
  "demo_json_dumps findings =
     (if findings = [] then ''[]'' else ''['' @ [CHR 0x0A] @ json_findings findings @ '']'')"

definition demo_libs :: libs where
  "demo_libs =
     \<lparr>py = demo_interp,
      scanning = \<lparr>run_semgrep = (\<lambda>batch. None), normpath = (\<lambda>p. p)\<rparr>,
      json_dumps = demo_json_dumps\<rparr>"

definition plain_file :: "string \<Rightarrow> file_entry" where
  "plain_file text = \<lparr>data = text, readable = True, writable = True\<rparr>"

definition demo_world :: world where
  "demo_world =
     \<lparr>files = [''a.py'' \<mapsto> plain_file ''import rsa'',
               ''b.py'' \<mapsto> plain_file ''import rsa ('',
               ''c.py'' \<mapsto> plain_file ''import rsa''],
      printed = [], reissued = 0\<rparr>"

definition demo_args :: migrate_args where
  "demo_args =
     \<lparr>path = ''.'', dry_run = False, json_output = None,
      config = \<lparr>cfg_dry_run = False, cfg_verbose = True, cfg_anonymize = False\<rparr>,
      file_list = [''a.py'', ''b.py'', ''c.py''], files_walked = 3,
      confirm_refactor = True, confirm_reissue = False\<rparr>"


text \<open>
  A file that can be read but not written, and the analyzer reporting one line once or
  twice.
\<close>

definition readonly_world :: world where
  "readonly_world =
     \<lparr>files = [''a.py'' \<mapsto> plain_file ''import rsa'',
               ''b.py'' \<mapsto> \<lparr>data = ''import rsa'', readable = True, writable = False\<rparr>,
               ''c.py'' \<mapsto> plain_file ''import rsa''],
      printed = [], reissued = 0\<rparr>"




section \<open>Predicates of the statements\<close>

text \<open>
  What the loop of \<^verbatim>\<open>migrate\<close> has done to the file \<open>p\<close> between the worlds \<open>w\<close> and
  \<open>w'\<close>, outside dry-run mode: a file that can be read and written holds the text that
  \<^verbatim>\<open>refactor_code_ast\<close> returns for it and no error was reported for it; any other file
  is as it was and one error was reported for it.
\<close>

definition handled_alone :: "libs \<Rightarrow> string \<Rightarrow> world \<Rightarrow> world \<Rightarrow> bool" where
  "handled_alone L p w w' =
     (case files w p of
        None \<Rightarrow> files w' p = None \<and> error_count p (printed w') = error_count p (printed w) + 1
      | Some f \<Rightarrow>
          if readable f \<and> writable f
          then files w' p = Some (f\<lparr>data := refactor_code_ast (py L) (data f)\<rparr>)
               \<and> error_count p (printed w') = error_count p (printed w)
          else files w' p = Some f
               \<and> error_count p (printed w') = error_count p (printed w) + 1)"


section \<open>The risk classifier\<close>

text \<open>
  Claim C7. \<^verbatim>\<open>assess_risk\<close> depends on the result only through its normalized message,
  \<^verbatim>\<open>message.lower().strip()\<close>, whatever \<^verbatim>\<open>str.lower\<close> and \<^verbatim>\<open>str.strip\<close> do. For a
  normalized message that starts with the RSA-key-usage prefix it returns \<open>Low\<close> when
  the message contains \<^verbatim>\<open>>=3072\<close> or \<^verbatim>\<open>kyber\<close> and \<open>High\<close> otherwise, so the mitigation
  check comes before the \<open>High\<close> of that family; a normalized message that matches no
  rule is classified \<open>Low\<close>.
\<close>

theorem assess_risk_rules:
  "(strip I (lower I (result_message r')) = strip I (lower I (result_message r))
      \<longrightarrow> assess_risk I r' = assess_risk I r)
   \<and> (prefix ''insecure rsa key usage detected'' (strip I (lower I (result_message r))) \<longrightarrow>
        assess_risk I r = (if contains ''>=3072'' (strip I (lower I (result_message r)))
                            \<or> contains ''kyber'' (strip I (lower I (result_message r)))
                         then Low else High))
   \<and> (\<not> matches_rule (strip I (lower I (result_message r))) \<longrightarrow> assess_risk I r = Low)"
  by (simp add: assess_risk_def matches_rule_def Let_def)

theorem assess_risk_rules_witness:
  "prefix ''insecure rsa key usage detected''
     (strip demo_interp (lower demo_interp (result_message \<lparr>res_path = None, res_message = Some ''  Insecure RSA key usage detected; hybrid with Kyber'', res_line = None\<rparr>)))
   \<and> assess_risk demo_interp \<lparr>res_path = None, res_message = Some ''  Insecure RSA key usage detected; hybrid with Kyber'', res_line = None\<rparr> = Low
   \<and> assess_risk demo_interp \<lparr>res_path = None, res_message = Some ''Insecure RSA key usage detected'', res_line = None\<rparr> = High
   \<and> \<not> matches_rule (strip demo_interp (lower demo_interp (result_message \<lparr>res_path = None, res_message = Some ''rsa.newkeys call'', res_line = None\<rparr>)))
   \<and> assess_risk demo_interp \<lparr>res_path = None, res_message = Some ''rsa.newkeys call'', res_line = None\<rparr> = Low"
proof -
  let ?r1 = "\<lparr>res_path = None, res_message = Some ''  Insecure RSA key usage detected; hybrid with Kyber'', res_line = None\<rparr>"
  let ?r2 = "\<lparr>res_path = None, res_message = Some ''Insecure RSA key usage detected'', res_line = None\<rparr>"
  let ?r3 = "\<lparr>res_path = None, res_message = Some ''rsa.newkeys call'', res_line = None\<rparr>"
  have n1: "strip demo_interp (lower demo_interp (result_message ?r1)) = ''insecure rsa key usage detected; hybrid with kyber''"
    by code_simp
  have n2: "strip demo_interp (lower demo_interp (result_message ?r2)) = ''insecure rsa key usage detected''"
    by code_simp
  have n3: "strip demo_interp (lower demo_interp (result_message ?r3)) = ''rsa.newkeys call''"
    by code_simp
  have p1: "prefix ''insecure rsa key usage detected'' ''insecure rsa key usage detected; hybrid with kyber''"
    by code_simp
  have k1: "contains ''kyber'' ''insecure rsa key usage detected; hybrid with kyber''"
    by code_simp
  have k2: "\<not> contains ''kyber'' ''insecure rsa key usage detected''"
    by code_simp
  have k3: "\<not> contains ''>=3072'' ''insecure rsa key usage detected''"
    by code_simp
  have m3: "\<not> matches_rule ''rsa.newkeys call''"
    by code_simp
  show ?thesis
    using assess_risk_rules [of demo_interp ?r1 ?r1] assess_risk_rules [of demo_interp ?r2 ?r2]
      assess_risk_rules [of demo_interp ?r3 ?r3]
    unfolding n1 n2 n3 using p1 k1 k2 k3 m3 by simp
qed

section \<open>The passes on the example trees\<close>

text \<open>
  Claim C3, at \<^verbatim>\<open>import rsa, os\<close>. \<^verbatim>\<open>visit_Import\<close> computes the names other than
  \<^verbatim>\<open>rsa\<close> and then returns the node as it was: the statement survives with its
  \<^verbatim>\<open>rsa\<close> binding, through the pass and through the whole engine.
\<close>

theorem import_removal_keeps_rsa_binding:
  "rm_visit (Module [import_rsa_os]) = Module [import_rsa_os]
   \<and> transform_tree demo_interp (Module [import_rsa_os]) = Inr (Module [pqc_import, import_rsa_os])
   \<and> binds_rsa import_rsa_os"
  by code_simp

text \<open>
  Claim C1, at \<^verbatim>\<open>rsa.encrypt(a, rsa.decrypt(b, c))\<close>. The rewriting branch of
  \<^verbatim>\<open>visit_Call\<close> does not visit the arguments, so the first application leaves the inner
  call; a second application reaches it. Applying the passes twice differs from applying
  them once, on the tree and on the module that the printed result parses to.
\<close>

theorem nested_call_not_idempotent:
  "transform_tree demo_interp nested_call_module = Inr nested_call_once
   \<and> transform_tree demo_interp nested_call_once = Inr nested_call_twice
   \<and> nested_call_twice \<noteq> nested_call_once
   \<and> transform_tree demo_interp nested_call_migrated = Inr nested_call_remigrated
   \<and> nested_call_remigrated \<noteq> nested_call_migrated"
  by code_simp

section \<open>The final report\<close>

text \<open>
  Claim C9, at a run outside dry-run mode in which the refactoring is confirmed and the
  key reissuance is declined: \<^verbatim>\<open>reissue_keys\<close> is not called, and the report carries
  the flag \<open>True\<close> and says that the keys have been reissued.
\<close>

theorem report_flag_without_reissuance:
  "\<not> dry_run demo_args \<and> confirm_refactor demo_args \<and> \<not> confirm_reissue demo_args
   \<and> reissued demo_world = 0
   \<and> reissued (migrate demo_libs demo_args demo_world) = 0
   \<and> map_option key_reissuance_done (final_report_of (printed (migrate demo_libs demo_args demo_world)))
       = Some True
   \<and> map_option next_step_2 (final_report_of (printed (migrate demo_libs demo_args demo_world)))
       = Some ''PQC keys have been automatically reissued.''"
  by code_simp

section \<open>The loop of \<^verbatim>\<open>migrate\<close> over the vulnerable files\<close>

lemma echo_simps [simp]:
  "files (echo e w) = files w" "reissued (echo e w) = reissued w"
  "printed (echo e w) = printed w @ [e]"
  by (simp_all add: echo_def)







lemma refactor_one_wet:
  "refactor_one L False (p, v) w =
     (case files w p of
        None \<Rightarrow> w\<lparr>printed := printed w @ [Refactoring p False, ErrorRefactoring p ''No such file or directory'']\<rparr>
      | Some f \<Rightarrow>
          if readable f \<and> writable f
          then w\<lparr>files := (files w)(p \<mapsto> f\<lparr>data := refactor_code_ast (py L) (data f)\<rparr>),
                 printed := printed w @ [Refactoring p False, Updated p]\<rparr>
          else w\<lparr>printed := printed w @ [Refactoring p False, ErrorRefactoring p ''Permission denied'']\<rparr>)"
  by (auto simp: refactor_one_def refactor_file_def Let_def read_text_def write_text_def echo_def
           split: sum.splits prod.splits option.splits)

lemma error_count_append [simp]: "error_count p (xs @ ys) = error_count p xs + error_count p ys"
  by (simp add: error_count_def)

lemma error_count_simps [simp]:
  "error_count p [] = 0"
  "error_count p (ErrorRefactoring q e # es) = (if p = q then 1 else 0) + error_count p es"
  "error_count p (Refactoring q b # es) = error_count p es"
  "error_count p (Updated q # es) = error_count p es"
  by (simp_all add: error_count_def)

lemma refactor_one_other:
  "p \<noteq> q \<Longrightarrow> files (refactor_one L False (q, v) w) p = files w p
     \<and> error_count p (printed (refactor_one L False (q, v) w)) = error_count p (printed w)"
  by (simp add: refactor_one_wet split: option.splits)

lemma refactor_all_other:
  "p \<notin> fst ` set groups \<Longrightarrow>
     files (refactor_all L False groups w) p = files w p
     \<and> error_count p (printed (refactor_all L False groups w)) = error_count p (printed w)"
proof (induction groups arbitrary: w)
  case Nil
  then show ?case by simp
next
  case (Cons item groups)
  obtain q v where item: "item = (q, v)" by (cases item)
  from Cons.prems have "p \<noteq> q" and "p \<notin> fst ` set groups" by (auto simp: item)
  then show ?case using Cons.IH [of "refactor_one L False (q, v) w"]
    by (simp add: item refactor_one_other)
qed

lemma refactor_one_handled_alone: "handled_alone L p w (refactor_one L False (p, v) w)"
  by (simp add: handled_alone_def refactor_one_wet split: option.splits)

lemma refactor_all_handled_alone:
  "distinct (map fst groups) \<Longrightarrow> p \<in> fst ` set groups \<Longrightarrow>
     handled_alone L p w (refactor_all L False groups w)"
proof (induction groups arbitrary: w)
  case Nil
  then show ?case by simp
next
  case (Cons item groups)
  obtain q v where item: "item = (q, v)" by (cases item)
  let ?w1 = "refactor_one L False (q, v) w"
  show ?case
  proof (cases "p = q")
    case True
    with Cons.prems have "p \<notin> fst ` set groups" by (auto simp: item)
    from refactor_all_other [OF this, of L ?w1] refactor_one_handled_alone [of L p w v]
    show ?thesis by (simp add: item True handled_alone_def split: option.splits if_splits)
  next
    case False
    with Cons.prems have d: "distinct (map fst groups)" and m: "p \<in> fst ` set groups"
      by (auto simp: item)
    from Cons.IH [OF d m, of ?w1] refactor_one_other [OF False, of L v w]
    show ?thesis by (simp add: item handled_alone_def split: option.splits if_splits)
  qed
qed

lemma setdefault_append_keys:
  "map fst (setdefault_append k v acc) = (if k \<in> set (map fst acc) then map fst acc else map fst acc @ [k])"
  by (induction k v acc rule: setdefault_append.induct) auto

lemma foldl_groups_keys:
  "distinct (map fst acc) \<Longrightarrow>
     distinct (map fst (foldl (\<lambda>acc f. setdefault_append (real_path f) f acc) acc fs))
     \<and> set (map fst (foldl (\<lambda>acc f. setdefault_append (real_path f) f acc) acc fs))
         = set (map fst acc) \<union> real_path ` set fs"
proof (induction fs arbitrary: acc)
  case Nil
  then show ?case by simp
next
  case (Cons f fs)
  have "distinct (map fst (setdefault_append (real_path f) f acc))"
    using Cons.prems by (simp add: setdefault_append_keys)
  from Cons.IH [OF this] show ?case
    by (auto simp: setdefault_append_keys split: if_splits)
qed

lemma files_to_refactor_keys:
  "distinct (map fst (files_to_refactor fs))"
  "fst ` set (files_to_refactor fs) = real_path ` set fs"
  using foldl_groups_keys [of "[]" fs] by (simp_all add: files_to_refactor_def)

text \<open>
  Claim C2, as stated, at three files of which \<^verbatim>\<open>b.py\<close> does not parse:
  \<^verbatim>\<open>refactor_code_ast\<close> catches the syntax error and returns the marker line followed by
  the source, \<^verbatim>\<open>refactor_file\<close> writes that text, and no exception reaches the handler
  in \<^verbatim>\<open>migrate\<close>. The file is changed on disk and no error is reported for it.
\<close>

theorem unparsable_file_is_rewritten:
  "map_option data (files demo_world ''b.py'') = Some ''import rsa (''
   \<and> demo_parse ''import rsa ('' = Inl ''invalid syntax (<unknown>, line 1)''
   \<and> map_option data (files (migrate demo_libs demo_args demo_world) ''b.py'')
       = Some (error_marker ''invalid syntax (<unknown>, line 1)'' ''import rsa ('')
   \<and> error_count ''b.py'' (printed (migrate demo_libs demo_args demo_world)) = 0"
  by code_simp

text \<open>
  Claim C2, amended. Outside dry-run mode the loop handles every vulnerable file on its
  own, wherever it stands among the others: a file that can be read and written is
  rewritten with the text that \<^verbatim>\<open>refactor_code_ast\<close> returns for it (for a source that
  does not parse, the marker line and the source) and no error is reported for it; a
  file whose reading or writing raises is left as it was, and exactly one error is
  reported for it.
\<close>

theorem per_file_isolation:
  assumes "p \<in> real_path ` set findings"
  shows "handled_alone L p w (refactor_all L False (files_to_refactor findings) w)"
  using assms refactor_all_handled_alone [of "files_to_refactor findings" p L w]
  by (simp add: files_to_refactor_keys)

theorem per_file_isolation_witness:
  "''b.py'' \<in> real_path ` set (scan_files (py demo_libs) (scanning demo_libs) (config demo_args) (files readonly_world) (file_list demo_args))
   \<and> handled_alone demo_libs ''b.py'' readonly_world
        (refactor_all demo_libs False
           (files_to_refactor (scan_files (py demo_libs) (scanning demo_libs) (config demo_args) (files readonly_world) (file_list demo_args)))
           readonly_world)
   \<and> map_option writable (files readonly_world ''b.py'') = Some False
   \<and> error_count ''b.py'' (printed readonly_world) = 0"
proof -
  have h: "''b.py'' \<in> real_path ` set (scan_files (py demo_libs) (scanning demo_libs) (config demo_args) (files readonly_world) (file_list demo_args))"
    by code_simp
  have c: "map_option writable (files readonly_world ''b.py'') = Some False
     \<and> error_count ''b.py'' (printed readonly_world) = 0"
    by code_simp
  from per_file_isolation [OF h] h c show ?thesis by blast
qed










section \<open>The merge of the two streams of findings\<close>


lemma fallback_finding_props [simp]:
  "is_fallback (fallback_finding I E cfg p i l)"
  "finding_key (fallback_finding I E cfg p i l) = (p, LineNo i)"
  by (simp_all add: is_fallback_def fallback_finding_def finding_key_def)













lemma nodes_of_simps [simp]:
  "nodes_of (Node c fs) = Node c fs # walk_fields fs"
  "nodes_of (PList ys) = walk_items ys"
  "nodes_of (PStr s) = []" "nodes_of (PInt i) = []" "nodes_of PNone = []"
  by (simp_all add: nodes_of_def)

lemma walk_items_append [simp]: "walk_items (xs @ ys) = walk_items xs @ walk_items ys"
  by (induction xs) simp_all



lemma walk_fields_Cons [simp]: "walk_fields ((k, v) # fs) = nodes_of v @ walk_fields fs"
  by (cases v) simp_all


lemma rewrite_Call_shape:
  "rewrite_Call I node = Some r \<Longrightarrow>
     \<exists>f new. RSA_TO_PQC_MAPPING f = Some new
       \<and> r = PList [Call (Name new) (attr node ''args'') (attr node ''keywords''), migration_comment f new]"
  by (auto simp: rewrite_Call_def Let_def split: pyval.splits option.splits if_splits)


lemma not_pqc_built [simp]:
  "\<not> is_pqc_import (Call f a k)" "\<not> is_pqc_import (Name i)" "\<not> is_pqc_import Load"
  "\<not> is_pqc_import (migration_comment g new)" "\<not> is_pqc_import (Constant v)"
  by (simp_all add: is_pqc_import_def Call_def Name_def Load_def migration_comment_def Expr_def Constant_def)

lemma attr_eq_str: "attr (Node c fs) k = PStr s \<longleftrightarrow> map_of fs k = Some (PStr s)"
  by (simp split: option.splits)

lemma call_visit_cases:
  "(\<exists>fs'. call_visit I (Node c fs) = Node c fs') \<or> (\<exists>a b. call_visit I (Node c fs) = PList [a, b])"
proof (cases "c = ''Call'' \<and> rewrite_Call I (Node c fs) \<noteq> None")
  case True
  then obtain r where r: "rewrite_Call I (Node c fs) = Some r" by auto
  from rewrite_Call_shape [OF r] r True show ?thesis by auto
next
  case False
  then show ?thesis by auto
qed

lemma call_fields_str:
  "map_of (call_fields I fs) k = Some (PStr s) \<longleftrightarrow> map_of fs k = Some (PStr s)"
proof (induction fs)
  case Nil
  then show ?case by simp
next
  case (Cons kv fs)
  obtain k' v where kv: "kv = (k', v)" by (cases kv)
  show ?case
  proof (cases v)
    case (Node c' fs')
    from call_visit_cases [of I c' fs'] show ?thesis
      using Cons by (auto simp: kv Node simp del: call_visit.simps)
  qed (use Cons in \<open>auto simp: kv\<close>)
qed




lemma module_body_Module [simp]: "module_body (Module body) = body"
  by (simp add: module_body_def Module_def)

lemma Module_inject [simp]: "Module a = Module b \<longleftrightarrow> a = b"
  by (simp add: Module_def)

lemma is_pqc_import_pqc_import [simp]: "is_pqc_import pqc_import"
  by (simp add: is_pqc_import_def pqc_import_def ImportFrom_def)

lemma rm_visit_result:
  "rm_visit (Node c fs) = PNone \<or> (\<exists>fs'. rm_visit (Node c fs) = Node c fs' \<and> \<not> rsa_only_import (Node c fs'))"
  by (auto simp: rm_visit_Import_def rm_visit_ImportFrom_def Let_def rsa_only_import_def)


lemma call_visit_alt:
  "call_visit I (Node c fs) = Node c (call_fields I fs)
   \<or> (\<exists>f new. call_visit I (Node c fs) =
          PList [Call (Name new) (attr (Node c fs) ''args'') (attr (Node c fs) ''keywords''), migration_comment f new])"
proof (cases "c = ''Call'' \<and> rewrite_Call I (Node c fs) \<noteq> None")
  case True
  then obtain r where r: "rewrite_Call I (Node c fs) = Some r" by auto
  from rewrite_Call_shape [OF r] r True show ?thesis by auto
next
  case False
  then show ?thesis by auto
qed

lemma call_fields_list:
  "map_of fs k = Some (PList ns) \<Longrightarrow> map_of (call_fields I fs) k = Some (PList (call_items I ns))"
proof (induction fs)
  case Nil
  then show ?case by simp
next
  case (Cons kv fs)
  obtain k' v where kv: "kv = (k', v)" by (cases kv)
  show ?case
  proof (cases v)
    case (Node c' fs')
    from call_visit_cases [of I c' fs'] show ?thesis
      using Cons by (auto simp: kv Node simp del: call_visit.simps split: if_splits)
  qed (use Cons in \<open>auto simp: kv split: if_splits\<close>)
qed

lemma call_items_Cons_subset: "set (call_items I xs) \<subseteq> set (call_items I (x # xs))"
proof (cases x)
  case (Node c fs)
  from call_visit_cases [of I c fs] show ?thesis
    by (auto simp: Node simp del: call_visit.simps)
qed auto

lemma not_rsa_name_built [simp]: "attr (Call f a k) ''name'' \<noteq> PStr ''rsa''"
  by (simp add: Call_def)

lemma call_items_keeps:
  "n \<in> set ns \<Longrightarrow> attr n ''name'' \<noteq> PStr ''rsa'' \<Longrightarrow>
     \<exists>m \<in> set (call_items I ns). attr m ''name'' \<noteq> PStr ''rsa''"
proof (induction ns)
  case Nil
  then show ?case by simp
next
  case (Cons x ns)
  show ?case
  proof (cases "n = x")
    case True
    show ?thesis
    proof (cases x)
      case (Node c fs)
      from call_visit_alt [of I c fs] show ?thesis
      proof
        assume e: "call_visit I (Node c fs) = Node c (call_fields I fs)"
        from Cons.prems(2) True Node have "attr (Node c fs) ''name'' \<noteq> PStr ''rsa''" by simp
        then have "attr (Node c (call_fields I fs)) ''name'' \<noteq> PStr ''rsa''"
          unfolding attr_eq_str call_fields_str .
        then show ?thesis using e by (auto simp: Node simp del: call_visit.simps attr.simps)
      next
        assume "\<exists>f new. call_visit I (Node c fs) =
          PList [Call (Name new) (attr (Node c fs) ''args'') (attr (Node c fs) ''keywords''), migration_comment f new]"
        then obtain f new where e: "call_visit I (Node c fs) =
          PList [Call (Name new) (attr (Node c fs) ''args'') (attr (Node c fs) ''keywords''), migration_comment f new]"
          by blast
        show ?thesis unfolding Node call_items.simps e using not_rsa_name_built
          by (auto simp del: attr.simps)
      qed
    qed (use Cons.prems True in \<open>auto\<close>)
  next
    case False
    with Cons obtain m where "m \<in> set (call_items I ns)" "attr m ''name'' \<noteq> PStr ''rsa''" by auto
    with call_items_Cons_subset [of I ns x] show ?thesis by blast
  qed
qed

lemma call_fields_not_rsa_only:
  assumes "\<not> rsa_only_import (Node c fs)"
  shows "\<not> rsa_only_import (Node c (call_fields I fs))"
proof (cases "c = ''Import''")
  case True
  with assms obtain n where n: "n \<in> set (names_of (Node c fs))" "attr n ''name'' \<noteq> PStr ''rsa''"
    by (auto simp: rsa_only_import_def filter_empty_conv)
  then obtain ns where ns: "map_of fs ''names'' = Some (PList ns)" "n \<in> set ns"
    by (auto simp: names_of_def split: option.splits pyval.splits)
  from call_fields_list [OF ns(1)] have "names_of (Node c (call_fields I fs)) = call_items I ns"
    by (simp add: names_of_def)
  with call_items_keeps [OF ns(2) n(2)] show ?thesis
    by (auto simp: rsa_only_import_def filter_empty_conv True)
next
  case False
  have "attr (Node c (call_fields I fs)) ''module'' = PStr ''rsa'' \<longleftrightarrow> attr (Node c fs) ''module'' = PStr ''rsa''"
    unfolding attr_eq_str call_fields_str by simp
  with assms False show ?thesis by (simp add: rsa_only_import_def)
qed

lemma not_rsa_only_built [simp]:
  "\<not> rsa_only_import (Call f a k)" "\<not> rsa_only_import (migration_comment g new)"
  by (simp_all add: rsa_only_import_def Call_def migration_comment_def Expr_def)

lemma walk_subset_nodes_of: "set (walk v) \<subseteq> set (nodes_of v)"
  by (cases v) simp_all












end
